theory Spec2Isabelle
  imports Complex_Main "HOL-Library.Sublist"
begin

section \<open>Data model of the StudentGradingSystem component\<close>

text \<open>
  The component keeps its state in React \<open>useState\<close> cells and talks to the grading
  service with \<open>fetch\<close>. Strings are modelled as lists of 8-bit characters; JSON numbers
  that the component only stores and displays are carried as rationals.
\<close>

record student =
  Name :: string
  Marks :: "rat option"
  Grade :: string
  Grade_Points :: "rat option"

record chart_entry =
  grade :: string
  Number_of_Students :: nat

record grade_range =
  range_grade :: string
  points :: nat

subsection \<open>The chart aggregation inside \<open>handleUpload\<close>\<close>

text \<open>\<open>gradeSystem.ranges\<close>: the grade order for chart and display.\<close>

definition gradeSystem_ranges :: "grade_range list" where
  "gradeSystem_ranges =
     [\<lparr>range_grade = ''O'', points = 10\<rparr>, \<lparr>range_grade = ''A+'', points = 9\<rparr>,
      \<lparr>range_grade = ''A'', points = 8\<rparr>, \<lparr>range_grade = ''B+'', points = 7\<rparr>,
      \<lparr>range_grade = ''B'', points = 6\<rparr>, \<lparr>range_grade = ''C'', points = 5\<rparr>,
      \<lparr>range_grade = ''U'', points = 0\<rparr>]"

text \<open>\<open>const gradeOrder = gradeSystem.ranges.map(r => r.grade)\<close>\<close>

definition gradeOrder :: "string list" where
  "gradeOrder = map range_grade gradeSystem_ranges"

text \<open>
  \<open>x || 0\<close> on a property of the counter object: an absent property (\<open>undefined\<close>) and
  the number 0 are falsy and give 0, any other number gives itself.
\<close>

definition or0 :: "nat option \<Rightarrow> nat" where
  "or0 v = (case v of None \<Rightarrow> 0 | Some c \<Rightarrow> if c = 0 then 0 else c)"

text \<open>
  The reducer \<open>(acc, student) => { acc[student.Grade] = (acc[student.Grade] || 0) + 1;
  return acc; }\<close>. The counter object starts as \<open>{}\<close> and is modelled by its own
  properties. (A grade equal to the name of a property that \<open>{}\<close> inherits, such as
  \<open>constructor\<close>, stores a non-numeric value under that name in JavaScript; such names
  are never read back, since only the labels of \<open>gradeOrder\<close> are looked up, and none
  of them is inherited.)
\<close>

definition count_step :: "student \<Rightarrow> (string \<rightharpoonup> nat) \<Rightarrow> (string \<rightharpoonup> nat)" where
  "count_step student acc = acc(Grade student \<mapsto> or0 (acc (Grade student)) + 1)"

text \<open>\<open>result.details.reduce(..., {})\<close>\<close>

definition counts_of :: "student list \<Rightarrow> (string \<rightharpoonup> nat)" where
  "counts_of details = fold count_step details Map.empty"

text \<open>
  \<open>gradeOrder.map(grade => ({ grade: grade, 'Number of Students': counts[grade] || 0 }))\<close>
\<close>

definition formattedChartData :: "student list \<Rightarrow> chart_entry list" where
  "formattedChartData details =
     map (\<lambda>g. \<lparr>grade = g, Number_of_Students = or0 (counts_of details g)\<rparr>) gradeOrder"

subsection \<open>JavaScript string primitives\<close>

text \<open>
  A character stands for a UTF-16 code unit in the Latin-1 range (below 256). On that
  range \<open>String.prototype.trim\<close> removes TAB, LF, VT, FF, CR, SPACE and NBSP, and
  \<open>toLowerCase\<close> maps A-Z and the accented capitals 0xC0-0xDE (without the
  multiplication sign 0xD7) 32 positions up.
\<close>

definition isWhiteSpace :: "char \<Rightarrow> bool" where
  "isWhiteSpace c = (of_char c \<in> {9, 10, 11, 12, 13, 32, 160 :: nat})"

definition trim :: "string \<Rightarrow> string" where
  "trim s = rev (dropWhile isWhiteSpace (rev (dropWhile isWhiteSpace s)))"

definition lower_char :: "char \<Rightarrow> char" where
  "lower_char c =
     (let n = (of_char c :: nat)
      in if (65 \<le> n \<and> n \<le> 90) \<or> (192 \<le> n \<and> n \<le> 222 \<and> n \<noteq> 215)
         then char_of (n + 32) else c)"

definition toLowerCase :: "string \<Rightarrow> string" where
  "toLowerCase s = map lower_char s"

definition endsWith :: "string \<Rightarrow> string \<Rightarrow> bool" where
  "endsWith s suf = (length suf \<le> length s \<and> drop (length s - length suf) s = suf)"

text \<open>\<open>Array.prototype.join\<close> on an array of strings.\<close>

fun join :: "string list \<Rightarrow> string \<Rightarrow> string" where
  "join [] sep = []"
| "join [x] sep = x"
| "join (x # y # ys) sep = x @ sep @ join (y # ys) sep"

subsection \<open>\<open>Number(string)\<close>\<close>

text \<open>
  The result of applying \<open>Number\<close> to a string. \<open>MV q\<close> is the double nearest to the
  mathematical value \<open>q\<close> of the numeric literal; the component only asks whether the
  result is \<open>NaN\<close> and whether it is below zero, and both questions are decided on \<open>q\<close>.
\<close>

datatype number = NaN | MV rat | PlusInfinity | MinusInfinity

definition isDigit :: "char \<Rightarrow> bool" where
  "isDigit c = (48 \<le> (of_char c :: nat) \<and> (of_char c :: nat) \<le> 57)"

text \<open>The value of a digit in a radix up to 16, when the character is one.\<close>

definition digit_value :: "nat \<Rightarrow> char \<Rightarrow> nat option" where
  "digit_value radix c =
     (let n = (of_char c :: nat);
          v = (if 48 \<le> n \<and> n \<le> 57 then Some (n - 48)
               else if 97 \<le> n \<and> n \<le> 102 then Some (n - 87)
               else if 65 \<le> n \<and> n \<le> 70 then Some (n - 55)
               else None)
      in case v of None \<Rightarrow> None | Some d \<Rightarrow> if d < radix then Some d else None)"

definition digits_value :: "nat \<Rightarrow> string \<Rightarrow> nat" where
  "digits_value radix ds = foldl (\<lambda>a c. radix * a + (case digit_value radix c of Some d \<Rightarrow> d | None \<Rightarrow> 0)) 0 ds"

text \<open>\<open>0x\<close>, \<open>0o\<close> and \<open>0b\<close> literals: at least one digit, all of the radix.\<close>

definition parse_radix :: "nat \<Rightarrow> string \<Rightarrow> number" where
  "parse_radix radix ds =
     (if ds \<noteq> [] \<and> list_all (\<lambda>c. digit_value radix c \<noteq> None) ds
      then MV (of_nat (digits_value radix ds)) else NaN)"

text \<open>The exponent part: nothing, or \<open>e\<close>/\<open>E\<close>, an optional sign and at least one digit.\<close>

definition parse_exponent :: "string \<Rightarrow> int option" where
  "parse_exponent r =
     (case r of
        [] \<Rightarrow> Some 0
      | c # t \<Rightarrow>
          if c = CHR ''e'' \<or> c = CHR ''E'' then
            (let neg = (t \<noteq> [] \<and> hd t = CHR ''-'');
                 ds = (if t \<noteq> [] \<and> (hd t = CHR ''-'' \<or> hd t = CHR ''+'') then tl t else t)
             in if ds \<noteq> [] \<and> list_all isDigit ds
                then Some ((if neg then - 1 else 1) * int (digits_value 10 ds))
                else None)
          else None)"

definition scale10 :: "nat \<Rightarrow> int \<Rightarrow> rat" where
  "scale10 m e = (if 0 \<le> e then of_nat m * 10 ^ nat e else of_nat m / 10 ^ nat (- e))"

text \<open>
  An unsigned decimal literal: \<open>Infinity\<close>, or digits with an optional fraction and an
  optional exponent, with at least one digit before or after the point.
\<close>

definition parse_unsigned :: "string \<Rightarrow> number" where
  "parse_unsigned u =
     (if u = ''Infinity'' then PlusInfinity
      else
        let ip = takeWhile isDigit u;
            r1 = dropWhile isDigit u;
            dot = (r1 \<noteq> [] \<and> hd r1 = CHR ''.'');
            fp = (if dot then takeWhile isDigit (tl r1) else []);
            r2 = (if dot then dropWhile isDigit (tl r1) else r1)
        in if ip = [] \<and> fp = [] then NaN
           else case parse_exponent r2 of
                  None \<Rightarrow> NaN
                | Some e \<Rightarrow> MV (scale10 (digits_value 10 (ip @ fp)) (e - int (length fp))))"

definition negate :: "number \<Rightarrow> number" where
  "negate n = (case n of NaN \<Rightarrow> NaN | MV q \<Rightarrow> MV (- q)
                 | PlusInfinity \<Rightarrow> MinusInfinity | MinusInfinity \<Rightarrow> PlusInfinity)"

text \<open>
  \<open>Number(s)\<close> for a string: surrounding white space is ignored, the empty literal is 0,
  a sign is allowed on decimal literals only, and anything else is \<open>NaN\<close>.
\<close>

definition Number :: "string \<Rightarrow> number" where
  "Number s =
     (let t = trim s
      in if t = [] then MV 0
         else if 2 \<le> length t \<and> hd t = CHR ''0'' \<and> (t ! 1 = CHR ''x'' \<or> t ! 1 = CHR ''X'')
           then parse_radix 16 (drop 2 t)
         else if 2 \<le> length t \<and> hd t = CHR ''0'' \<and> (t ! 1 = CHR ''o'' \<or> t ! 1 = CHR ''O'')
           then parse_radix 8 (drop 2 t)
         else if 2 \<le> length t \<and> hd t = CHR ''0'' \<and> (t ! 1 = CHR ''b'' \<or> t ! 1 = CHR ''B'')
           then parse_radix 2 (drop 2 t)
         else if hd t = CHR ''-'' then negate (parse_unsigned (tl t))
         else if hd t = CHR ''+'' then parse_unsigned (tl t)
         else parse_unsigned t)"

definition isNaN :: "number \<Rightarrow> bool" where
  "isNaN n = (n = NaN)"

text \<open>
  \<open>n < 0\<close>. Rounding to the nearest double (ties to even) takes every value of magnitude
  at most \<open>2 ^ -1075\<close> to a zero, and a negative zero is not below 0.
\<close>

definition less_than_zero :: "number \<Rightarrow> bool" where
  "less_than_zero n =
     (case n of NaN \<Rightarrow> False | MV q \<Rightarrow> q < - (1 / 2 ^ 1075)
        | PlusInfinity \<Rightarrow> False | MinusInfinity \<Rightarrow> True)"

subsection \<open>Component state and environment\<close>

record js_file =
  name :: string
  content :: string

record notification =
  message :: string
  type :: string

record download_info =
  fileId :: string
  filename :: string

record summary =
  count :: rat
  average :: rat
  max_marks :: rat
  min_marks :: rat
  grading_method :: string

text \<open>The three \<open>fetch\<close> calls of the component, with what each one carries.\<close>

datatype request =
    POST_upload js_file string string
  | GET_grade_ranges string
  | GET_download string

text \<open>
  The \<open>useState\<close> cells and the \<open>inputRef\<close> of the component, followed by the part of
  the browser the handlers act on: a clock in milliseconds, the due times of the pending
  \<open>setTimeout\<close> callbacks, the requests issued so far, and the files handed to the
  browser for saving. \<open>inputRef\<close> is \<open>None\<close> while the file input is not mounted and
  otherwise holds the input's value.
\<close>

record world =
  selectedFile :: "js_file option"
  isUploading :: bool
  notification :: notification
  downloadInfo :: "download_info option"
  resultStats :: "summary option"
  resultDetails :: "student list"
  chartData :: "chart_entry list"
  gradeRanges :: "(string \<times> string) list option"
  expectedTotal :: string
  subjectCode :: string
  dragActive :: bool
  inputRef :: "string option"
  clock :: nat
  timers :: "nat list"
  requests :: "request list"
  saved :: "(string \<times> string) list"

definition initial :: world where
  "initial =
     \<lparr>selectedFile = None, isUploading = False,
      notification = \<lparr>message = [], type = []\<rparr>,
      downloadInfo = None, resultStats = None, resultDetails = [], chartData = [],
      gradeRanges = None, expectedTotal = [], subjectCode = [], dragActive = False,
      inputRef = Some [], clock = 0, timers = [], requests = [], saved = []\<rparr>"

definition fetch :: "request \<Rightarrow> world \<Rightarrow> world" where
  "fetch r w = w\<lparr>requests := requests w @ [r]\<rparr>"

subsection \<open>Notifications and their timers\<close>

text \<open>
  \<open>showNotification\<close>: \<open>setNotification({ message, type })\<close>, then
  \<open>setTimeout(() => setNotification({ message: '', type: '' }), 4000)\<close>.
\<close>

definition showNotification :: "string \<Rightarrow> string \<Rightarrow> world \<Rightarrow> world" where
  "showNotification msg ty w =
     w\<lparr>notification := \<lparr>message = msg, type = ty\<rparr>,
       timers := timers w @ [clock w + 4000]\<rparr>"

text \<open>The callback every timer runs.\<close>

definition timeout_callback :: "world \<Rightarrow> world" where
  "timeout_callback w = w\<lparr>notification := \<lparr>message = [], type = []\<rparr>\<rparr>"

text \<open>
  Time passes by \<open>d\<close> milliseconds with no other event: every timer that falls due runs
  its callback and is removed.
\<close>

definition advance :: "nat \<Rightarrow> world \<Rightarrow> world" where
  "advance d w =
     (let t = clock w + d;
          due = filter (\<lambda>x. x \<le> t) (timers w);
          w' = fold (\<lambda>_. timeout_callback) due w
      in w'\<lparr>clock := t, timers := filter (\<lambda>x. t < x) (timers w)\<rparr>)"

subsection \<open>File intake\<close>

definition resetState :: "world \<Rightarrow> world" where
  "resetState w =
     w\<lparr>selectedFile := None, isUploading := False, downloadInfo := None,
       resultStats := None, resultDetails := [], chartData := [], gradeRanges := None,
       expectedTotal := [], subjectCode := [],
       inputRef := (case inputRef w of None \<Rightarrow> None | Some _ \<Rightarrow> Some [])\<rparr>"

text \<open>\<open>files\<close> is \<open>None\<close> for a null or undefined file list.\<close>

definition handleFileSelect :: "js_file list option \<Rightarrow> world \<Rightarrow> world" where
  "handleFileSelect files w =
     (case files of
        None \<Rightarrow> w
      | Some [] \<Rightarrow> w
      | Some (file # _) \<Rightarrow>
          if \<not> endsWith (toLowerCase (name file)) ''.xlsx''
             \<and> \<not> endsWith (toLowerCase (name file)) ''.xls''
          then showNotification ''Please select a valid Excel file (.xlsx or .xls)'' ''error'' w
          else (resetState w)\<lparr>selectedFile := Some file\<rparr>)"

definition handleFileChangeEvent :: "js_file list option \<Rightarrow> world \<Rightarrow> world" where
  "handleFileChangeEvent files w = handleFileSelect files w"

definition handleDragEnter :: "world \<Rightarrow> world" where
  "handleDragEnter w = w\<lparr>dragActive := True\<rparr>"

definition handleDragLeave :: "world \<Rightarrow> world" where
  "handleDragLeave w = w\<lparr>dragActive := False\<rparr>"

definition handleDrop :: "js_file list option \<Rightarrow> world \<Rightarrow> world" where
  "handleDrop files w = handleFileSelect files (w\<lparr>dragActive := False\<rparr>)"

text \<open>The \<open>onChange\<close> handlers of the two parameter inputs.\<close>

definition setExpectedTotal :: "string \<Rightarrow> world \<Rightarrow> world" where
  "setExpectedTotal v w = w\<lparr>expectedTotal := v\<rparr>"

definition setSubjectCode :: "string \<Rightarrow> world \<Rightarrow> world" where
  "setSubjectCode v w = w\<lparr>subjectCode := v\<rparr>"

subsection \<open>\<open>handleUpload\<close>\<close>

text \<open>
  The part of \<open>handleUpload\<close> that runs before the first \<open>await\<close>: the three
  validations, \<open>setIsUploading(true)\<close>, the form data and the call of \<open>fetch\<close>.
\<close>

definition handleUpload :: "world \<Rightarrow> world" where
  "handleUpload w =
     (case selectedFile w of
        None \<Rightarrow> showNotification ''Please select a file first'' ''error'' w
      | Some f \<Rightarrow>
          if expectedTotal w = [] \<or> isNaN (Number (expectedTotal w))
             \<or> less_than_zero (Number (expectedTotal w))
          then showNotification ''Please enter a valid expected total number of students''
                 ''error'' w
          else if subjectCode w = [] \<or> trim (subjectCode w) = []
          then showNotification ''Please enter the subject code for verification'' ''error'' w
          else fetch (POST_upload f (expectedTotal w) (trim (subjectCode w)))
                 (w\<lparr>isUploading := True\<rparr>))"

text \<open>
  What the two awaits of \<open>handleUpload\<close> can deliver. The bodies follow the interface
  of the grading service: a response that is not ok carries an optional \<open>error\<close> string
  and an optional \<open>found_subjects\<close> list of strings, an ok response carries the
  result envelope. \<open>NotOk\<close> also carries the HTTP status, one outside 200-299, which
  the handler never reads.
\<close>

record upload_error =
  error :: "string option"
  found_subjects :: "string list option"

record upload_result =
  file_id :: string
  result_filename :: string
  result_summary :: summary
  details :: "student list"

datatype upload_outcome =
    FetchRejected string
  | JsonRejected string
  | NotOk nat upload_error
  | Ok upload_result

text \<open>
  The \<open>try\<close> block after the awaits: \<open>Inl\<close> is the message of the error thrown,
  \<open>Inr\<close> the world after the block ran to its end. A string is truthy unless empty,
  an array always.
\<close>

definition upload_try :: "upload_outcome \<Rightarrow> world \<Rightarrow> string + world" where
  "upload_try outcome w =
     (case outcome of
        FetchRejected m \<Rightarrow> Inl m
      | JsonRejected m \<Rightarrow> Inl m
      | NotOk status result \<Rightarrow>
          (case found_subjects result of
             Some subjects \<Rightarrow>
               Inl ((case error result of
                       Some e \<Rightarrow> if e \<noteq> [] then e @ '' '' else []
                     | None \<Rightarrow> [])
                    @ ''Found subjects: '' @ join subjects '', '')
           | None \<Rightarrow>
               Inl (case error result of
                      Some e \<Rightarrow> if e \<noteq> [] then e else ''Failed to upload file''
                    | None \<Rightarrow> ''Failed to upload file''))
      | Ok result \<Rightarrow>
          (let w1 = w\<lparr>downloadInfo :=
                        Some \<lparr>fileId = file_id result, filename = result_filename result\<rparr>,
                      resultStats := Some (result_summary result),
                      resultDetails := details result\<rparr>;
               w2 = showNotification ''File processed successfully!'' ''success'' w1;
               w3 = w2\<lparr>chartData := formattedChartData (details result)\<rparr>
           in Inr (fetch (GET_grade_ranges (file_id result)) w3)))"

text \<open>
  The rest of \<open>handleUpload\<close>, run when the awaits settle, on the state of that moment:
  the \<open>try\<close> block, the \<open>catch\<close> clause and the \<open>finally\<close> clause.
\<close>

definition handleUpload_settled :: "upload_outcome \<Rightarrow> world \<Rightarrow> world" where
  "handleUpload_settled outcome w =
     (let w' = (case upload_try outcome w of
                  Inl m \<Rightarrow> showNotification m ''error'' w
                | Inr w1 \<Rightarrow> w1)
      in w'\<lparr>isUploading := False\<rparr>)"

text \<open>
  The promise chain on the grade-ranges request: the fetch or \<open>res.json()\<close> may
  reject, the body may be \<open>null\<close>, or it is an object with an optional
  \<open>grade_ranges\<close> object.
\<close>

datatype ranges_outcome =
    RangesFetchRejected
  | RangesJsonRejected
  | RangesBodyNull
  | RangesBody "(string \<times> string) list option"

definition grade_ranges_settled :: "ranges_outcome \<Rightarrow> world \<Rightarrow> world" where
  "grade_ranges_settled outcome w =
     (case outcome of
        RangesBody (Some ranges) \<Rightarrow> w\<lparr>gradeRanges := Some ranges\<rparr>
      | RangesBody None \<Rightarrow> w\<lparr>gradeRanges := None\<rparr>
      | _ \<Rightarrow> w\<lparr>gradeRanges := None\<rparr>)"

subsection \<open>\<open>handleDownload\<close>\<close>

definition handleDownload :: "world \<Rightarrow> world" where
  "handleDownload w =
     (case downloadInfo w of
        None \<Rightarrow> showNotification ''No file available for download.'' ''error'' w
      | Some info \<Rightarrow> fetch (GET_download (fileId info)) w)"

datatype download_outcome =
    DownloadFetchRejected string
  | DownloadNotOk
  | DownloadBlobRejected string
  | DownloadBlob string

text \<open>
  The rest of \<open>handleDownload\<close>; \<open>info\<close> is the \<open>downloadInfo\<close> the handler was
  called with. Creating the object URL, clicking the temporary link and revoking the
  URL are recorded as one entry of \<open>saved\<close>: the file name and the blob.
\<close>

definition handleDownload_settled :: "download_info \<Rightarrow> download_outcome \<Rightarrow> world \<Rightarrow> world" where
  "handleDownload_settled info outcome w =
     (case outcome of
        DownloadFetchRejected m \<Rightarrow> showNotification m ''error'' w
      | DownloadNotOk \<Rightarrow> showNotification ''Download failed from server.'' ''error'' w
      | DownloadBlobRejected m \<Rightarrow> showNotification m ''error'' w
      | DownloadBlob blob \<Rightarrow>
          showNotification ''File downloaded successfully!'' ''success''
            (w\<lparr>saved := saved w @ [(filename info, blob)]\<rparr>))"

subsection \<open>An example session\<close>

text \<open>
  A file is chosen and the two parameters are typed in; the upload is started and
  answered with three graded students; the grade ranges arrive.
\<close>

definition marks_file :: js_file where
  "marks_file = \<lparr>name = ''Marks.XLSX'', content = ''PK''\<rparr>"

definition staged :: world where
  "staged =
     setSubjectCode '' CS101 '' (setExpectedTotal ''45''
       (handleFileSelect (Some [marks_file]) initial))"

definition sample_result :: upload_result where
  "sample_result =
     \<lparr>file_id = ''f1'', result_filename = ''graded.xlsx'',
      result_summary = \<lparr>count = 3, average = 75, max_marks = 95, min_marks = 40,
                          grading_method = ''relative_grading''\<rparr>,
      details = [\<lparr>Name = ''Asha'', Marks = Some 95, Grade = ''O'', Grade_Points = Some 10\<rparr>,
                 \<lparr>Name = ''Bala'', Marks = Some 91, Grade = ''O'', Grade_Points = Some 10\<rparr>,
                 \<lparr>Name = ''Chitra'', Marks = Some 40, Grade = ''B'', Grade_Points = Some 6\<rparr>]\<rparr>"

definition uploaded :: world where
  "uploaded = handleUpload_settled (Ok sample_result) (advance 1200 (handleUpload staged))"

definition ready :: world where
  "ready = grade_ranges_settled (RangesBody (Some [(''O'', ''91-100''), (''B'', ''40-60'')]))
             (advance 300 uploaded)"

section \<open>Properties\<close>

subsection \<open>Chart aggregation\<close>

lemma or0_count_step:
  "or0 (count_step s acc g) = (if Grade s = g then or0 (acc g) + 1 else or0 (acc g))"
  by (simp add: count_step_def or0_def)

lemma or0_fold_count_step:
  "or0 (fold count_step ds acc g)
     = or0 (acc g) + length (filter (\<lambda>s. Grade s = g) ds)"
proof (induction ds arbitrary: acc)
  case Nil
  show ?case by simp
next
  case (Cons s ds)
  show ?case
    by (simp add: Cons.IH or0_count_step)
qed

lemma or0_counts_of:
  "or0 (counts_of ds g) = length (filter (\<lambda>s. Grade s = g) ds)"
proof -
  have "or0 (Map.empty g) = 0" by (simp add: or0_def)
  then show ?thesis by (simp add: counts_of_def or0_fold_count_step)
qed

lemma gradeOrder_eq: "gradeOrder = [''O'', ''A+'', ''A'', ''B+'', ''B'', ''C'', ''U'']"
  by (simp add: gradeOrder_def gradeSystem_ranges_def)

lemma formattedChartData_eq:
  "formattedChartData ds =
     map (\<lambda>g. \<lparr>grade = g, Number_of_Students = length (filter (\<lambda>s. Grade s = g) ds)\<rparr>)
       gradeOrder"
  by (simp add: formattedChartData_def or0_counts_of)

text \<open>
  Claim C1. The chart aggregation is a function of the record sequence alone. It yields
  one entry per canonical grade label, in the order O, A+, A, B+, B, C, U; the count of
  a label is the number of records carrying that grade (zero when there is none);
  records whose grade is not a canonical label do not influence the result; and the
  three records with grades O, O, B give the counts 2, 0, 0, 0, 1, 0, 0.
\<close>

theorem chart_aggregation:
  "map grade (formattedChartData ds) = [''O'', ''A+'', ''A'', ''B+'', ''B'', ''C'', ''U'']
   \<and> map Number_of_Students (formattedChartData ds)
       = map (\<lambda>g. length (filter (\<lambda>s. Grade s = g) ds))
           [''O'', ''A+'', ''A'', ''B+'', ''B'', ''C'', ''U'']
   \<and> formattedChartData (filter (\<lambda>s. Grade s \<in> set gradeOrder) ds)
       = formattedChartData ds
   \<and> formattedChartData
        [\<lparr>Name = n1, Marks = m1, Grade = ''O'', Grade_Points = p1\<rparr>,
         \<lparr>Name = n2, Marks = m2, Grade = ''O'', Grade_Points = p2\<rparr>,
         \<lparr>Name = n3, Marks = m3, Grade = ''B'', Grade_Points = p3\<rparr>]
       = [\<lparr>grade = ''O'', Number_of_Students = 2\<rparr>, \<lparr>grade = ''A+'', Number_of_Students = 0\<rparr>,
          \<lparr>grade = ''A'', Number_of_Students = 0\<rparr>, \<lparr>grade = ''B+'', Number_of_Students = 0\<rparr>,
          \<lparr>grade = ''B'', Number_of_Students = 1\<rparr>, \<lparr>grade = ''C'', Number_of_Students = 0\<rparr>,
          \<lparr>grade = ''U'', Number_of_Students = 0\<rparr>]"
proof -
  have order: "map grade (formattedChartData ds)
                 = [''O'', ''A+'', ''A'', ''B+'', ''B'', ''C'', ''U'']"
    by (simp add: formattedChartData_eq gradeOrder_eq)
  have cnt: "map Number_of_Students (formattedChartData ds)
       = map (\<lambda>g. length (filter (\<lambda>s. Grade s = g) ds))
           [''O'', ''A+'', ''A'', ''B+'', ''B'', ''C'', ''U'']"
    by (simp add: formattedChartData_eq gradeOrder_eq)
  have keep: "g \<in> set gradeOrder \<Longrightarrow>
      filter (\<lambda>s. Grade s \<in> set gradeOrder \<and> Grade s = g) ds
        = filter (\<lambda>s. Grade s = g) ds" for g
    by (rule filter_cong) auto
  have drop: "formattedChartData (filter (\<lambda>s. Grade s \<in> set gradeOrder) ds)
       = formattedChartData ds"
    unfolding formattedChartData_eq by (rule map_cong) (simp_all add: keep)
  have ex: "formattedChartData
        [\<lparr>Name = n1, Marks = m1, Grade = ''O'', Grade_Points = p1\<rparr>,
         \<lparr>Name = n2, Marks = m2, Grade = ''O'', Grade_Points = p2\<rparr>,
         \<lparr>Name = n3, Marks = m3, Grade = ''B'', Grade_Points = p3\<rparr>]
       = [\<lparr>grade = ''O'', Number_of_Students = 2\<rparr>, \<lparr>grade = ''A+'', Number_of_Students = 0\<rparr>,
          \<lparr>grade = ''A'', Number_of_Students = 0\<rparr>, \<lparr>grade = ''B+'', Number_of_Students = 0\<rparr>,
          \<lparr>grade = ''B'', Number_of_Students = 1\<rparr>, \<lparr>grade = ''C'', Number_of_Students = 0\<rparr>,
          \<lparr>grade = ''U'', Number_of_Students = 0\<rparr>]"
    by (simp add: formattedChartData_eq gradeOrder_eq)
  from order cnt drop ex show ?thesis by blast
qed

subsection \<open>The example session, evaluated\<close>

lemma marks_file_accepted: "endsWith (toLowerCase ''Marks.XLSX'') ''.xlsx''"
  by code_simp

lemma staged_eq:
  "staged = initial\<lparr>selectedFile := Some marks_file, expectedTotal := ''45'',
                    subjectCode := '' CS101 ''\<rparr>"
  using marks_file_accepted
  by (simp add: staged_def handleFileSelect_def marks_file_def resetState_def initial_def
      setSubjectCode_def setExpectedTotal_def)

lemma staged_valid:
  "\<not> isNaN (Number ''45'')" "\<not> less_than_zero (Number ''45'')" "trim '' CS101 '' = ''CS101''"
  by code_simp+

lemma handleUpload_staged:
  "handleUpload staged
     = staged\<lparr>isUploading := True, requests := [POST_upload marks_file ''45'' ''CS101'']\<rparr>"
  using staged_valid
  by (simp add: handleUpload_def staged_eq initial_def fetch_def)

lemma uploaded_eq:
  "uploaded
     = staged\<lparr>downloadInfo := Some \<lparr>fileId = ''f1'', filename = ''graded.xlsx''\<rparr>,
              resultStats := Some (result_summary sample_result),
              resultDetails := details sample_result,
              notification := \<lparr>message = ''File processed successfully!'', type = ''success''\<rparr>,
              chartData := formattedChartData (details sample_result),
              clock := 1200, timers := [5200],
              requests := [POST_upload marks_file ''45'' ''CS101'', GET_grade_ranges ''f1'']\<rparr>"
  unfolding uploaded_def handleUpload_staged
  by (simp add: handleUpload_settled_def upload_try_def showNotification_def fetch_def
      advance_def staged_eq initial_def sample_result_def)

lemma ready_eq:
  "ready = uploaded\<lparr>clock := 1500,
                     gradeRanges := Some [(''O'', ''91-100''), (''B'', ''40-60'')]\<rparr>"
  unfolding ready_def uploaded_eq
  by (simp add: grade_ranges_settled_def advance_def staged_eq initial_def)

subsection \<open>Submission\<close>

lemma example_totals_invalid:
  "Number [] = MV 0" "less_than_zero (Number ''-1'')" "isNaN (Number ''abc'')"
  by code_simp+

lemma isDigit_not_space: "isDigit c \<Longrightarrow> \<not> isWhiteSpace c"
  by (auto simp add: isDigit_def isWhiteSpace_def)

lemma dropWhile_hd: "xs \<noteq> [] \<Longrightarrow> \<not> P (hd xs) \<Longrightarrow> dropWhile P xs = xs"
  by (cases xs) simp_all

lemma trim_minus_digits:
  assumes "ds \<noteq> []" and "list_all isDigit ds"
  shows "trim (CHR ''-'' # ds) = CHR ''-'' # ds"
proof -
  have minus: "\<not> isWhiteSpace CHR ''-''"
    by (simp add: isWhiteSpace_def)
  have "last ds \<in> set ds" using assms(1) by simp
  with assms(2) have "isDigit (last ds)" by (simp add: list_all_iff)
  then have "\<not> isWhiteSpace (hd (rev (CHR ''-'' # ds)))"
    using assms(1) by (simp add: hd_rev isDigit_not_space)
  then have "dropWhile isWhiteSpace (rev (CHR ''-'' # ds)) = rev (CHR ''-'' # ds)"
    by (intro dropWhile_hd) simp_all
  with minus show ?thesis
    by (simp add: trim_def)
qed

lemma parse_unsigned_digits:
  assumes "ds \<noteq> []" and "list_all isDigit ds"
  shows "parse_unsigned ds = MV (of_nat (digits_value 10 ds))"
proof -
  have "\<not> isDigit CHR ''I''" by (simp add: isDigit_def)
  with assms(2) have noinf: "ds \<noteq> ''Infinity''" by auto
  have tw: "takeWhile isDigit ds = ds" "dropWhile isDigit ds = []"
    using assms(2) by (simp_all add: list_all_iff)
  show ?thesis
    using assms(1) noinf
    by (simp add: parse_unsigned_def tw parse_exponent_def scale10_def)
qed

text \<open>A minus sign followed by decimal digits of non-zero value is below zero.\<close>

lemma negative_integer_below_zero:
  assumes "ds \<noteq> []" and "list_all isDigit ds" and "0 < digits_value 10 ds"
  shows "less_than_zero (Number (CHR ''-'' # ds))"
proof -
  have num: "Number (CHR ''-'' # ds) = MV (- of_nat (digits_value 10 ds))"
    by (simp add: Number_def trim_minus_digits [OF assms(1,2)]
        parse_unsigned_digits [OF assms(1,2)] negate_def)
  have "(1 :: rat) / 2 ^ 1075 < 1"
    by simp
  moreover have "(1 :: rat) \<le> of_nat (digits_value 10 ds)"
    using assms(3) by simp
  ultimately have "(1 :: rat) / 2 ^ 1075 < of_nat (digits_value 10 ds)"
    by linarith
  then show ?thesis
    by (simp add: num less_than_zero_def)
qed

text \<open>
  A string whose first character after trimming is neither a digit nor one of
  \<open>.\<close>, \<open>+\<close>, \<open>-\<close>, \<open>I\<close> cannot be a numeric literal.
\<close>

lemma nonnumeric_start_is_NaN:
  assumes "trim x \<noteq> []" and "\<not> isDigit (hd (trim x))"
    and "hd (trim x) \<notin> {CHR ''.'', CHR ''+'', CHR ''-'', CHR ''I''}"
  shows "isNaN (Number x)"
proof -
  obtain c t where t: "trim x = c # t"
    using assms(1) by (cases "trim x") auto
  with assms have c: "\<not> isDigit c" "c \<noteq> CHR ''.''" "c \<noteq> CHR ''+''" "c \<noteq> CHR ''-''"
    "c \<noteq> CHR ''I''"
    by simp_all
  have "isDigit CHR ''0''" by (simp add: isDigit_def)
  with c(1) have zero: "c \<noteq> CHR ''0''" by auto
  have "parse_unsigned (c # t) = NaN"
    using c by (auto simp add: parse_unsigned_def)
  with zero c show ?thesis
    by (simp add: Number_def t isNaN_def)
qed

lemma passing_totals:
  "Number ''-1e-400'' = MV (- (1 / 10 ^ 400))"
  "\<not> isNaN (Number ''-1e-400'')" "\<not> less_than_zero (Number ''-1e-400'')"
  "\<not> isNaN (Number ''  '')" "\<not> less_than_zero (Number ''  '')"
  by code_simp+

text \<open>
  Claim C2, as stated, fails. With a file staged and a subject code given, the total
  \<open>-1e-400\<close>, a literal of negative value, and the total of two spaces, which is not
  a number, both pass the validation: the upload request is issued and no notification
  is shown. (\<open>Number\<close> rounds the first to a negative zero, which is not below 0,
  and reads the second as 0.)
\<close>

theorem submit_validation_counterexample:
  "Number ''-1e-400'' = MV (- (1 / 10 ^ 400))
   \<and> (- (1 / 10 ^ 400) :: rat) < 0
   \<and> requests (handleUpload (setExpectedTotal ''-1e-400'' staged))
       = [POST_upload marks_file ''-1e-400'' ''CS101'']
   \<and> notification (handleUpload (setExpectedTotal ''-1e-400'' staged))
       = \<lparr>message = [], type = []\<rparr>
   \<and> list_all isWhiteSpace ''  ''
   \<and> requests (handleUpload (setExpectedTotal ''  '' staged))
       = [POST_upload marks_file ''  '' ''CS101'']
   \<and> notification (handleUpload (setExpectedTotal ''  '' staged))
       = \<lparr>message = [], type = []\<rparr>"
proof -
  have tiny: "handleUpload (setExpectedTotal ''-1e-400'' staged)
      = staged\<lparr>expectedTotal := ''-1e-400'', isUploading := True,
               requests := [POST_upload marks_file ''-1e-400'' ''CS101'']\<rparr>"
    using passing_totals(2,3) staged_valid(3)
    by (simp add: handleUpload_def setExpectedTotal_def staged_eq initial_def fetch_def)
  have blank: "handleUpload (setExpectedTotal ''  '' staged)
      = staged\<lparr>expectedTotal := ''  '', isUploading := True,
               requests := [POST_upload marks_file ''  '' ''CS101'']\<rparr>"
    using passing_totals(4,5) staged_valid(3)
    by (simp add: handleUpload_def setExpectedTotal_def staged_eq initial_def fetch_def)
  have spaces: "list_all isWhiteSpace ''  ''"
    by (simp add: isWhiteSpace_def)
  have neg: "(- (1 / 10 ^ 400) :: rat) < 0"
    by simp
  show ?thesis
    unfolding tiny blank using passing_totals(1) spaces neg
    by (simp add: staged_eq initial_def)
qed

text \<open>
  Claim C2, amended. \<open>handleUpload\<close> issues no request and shows one error
  notification whenever no file is staged, or \<open>expectedTotal\<close> is empty, or \<open>Number\<close>
  of it is \<open>NaN\<close>, or \<open>Number\<close> of it is a double below zero, or \<open>subjectCode\<close> is
  empty after trimming. That covers the totals \<open>-1\<close> and \<open>abc\<close> and the empty one,
  every minus sign followed by decimal digits of non-zero value, and every total whose
  first character after trimming is neither a digit nor one of \<open>.\<close>, \<open>+\<close>, \<open>-\<close>,
  \<open>I\<close>.
\<close>

theorem submit_validation:
  assumes "selectedFile w = None
           \<or> expectedTotal w = [] \<or> isNaN (Number (expectedTotal w))
           \<or> less_than_zero (Number (expectedTotal w))
           \<or> expectedTotal w \<in> {[], ''-1'', ''abc''}
           \<or> (\<exists>ds. expectedTotal w = CHR ''-'' # ds \<and> ds \<noteq> [] \<and> list_all isDigit ds
                  \<and> 0 < digits_value 10 ds)
           \<or> (trim (expectedTotal w) \<noteq> [] \<and> \<not> isDigit (hd (trim (expectedTotal w)))
               \<and> hd (trim (expectedTotal w)) \<notin> {CHR ''.'', CHR ''+'', CHR ''-'', CHR ''I''})
           \<or> trim (subjectCode w) = []"
  shows "requests (handleUpload w) = requests w
         \<and> type (notification (handleUpload w)) = ''error''
         \<and> message (notification (handleUpload w)) \<noteq> []
         \<and> timers (handleUpload w) = timers w @ [clock w + 4000]
         \<and> (\<exists>m. handleUpload w = showNotification m ''error'' w)"
proof -
  let ?bad = "expectedTotal w = [] \<or> isNaN (Number (expectedTotal w))
           \<or> less_than_zero (Number (expectedTotal w))"
  have listed: "expectedTotal w \<in> {[], ''-1'', ''abc''} \<Longrightarrow> ?bad"
    using example_totals_invalid by auto
  have negative: "\<exists>ds. expectedTotal w = CHR ''-'' # ds \<and> ds \<noteq> [] \<and> list_all isDigit ds
                  \<and> 0 < digits_value 10 ds \<Longrightarrow> ?bad"
    using negative_integer_below_zero by auto
  have letters: "trim (expectedTotal w) \<noteq> [] \<and> \<not> isDigit (hd (trim (expectedTotal w)))
        \<and> hd (trim (expectedTotal w)) \<notin> {CHR ''.'', CHR ''+'', CHR ''-'', CHR ''I''}
        \<Longrightarrow> ?bad"
    using nonnumeric_start_is_NaN by blast
  from assms listed negative letters
  have guard: "selectedFile w = None \<or> ?bad \<or> trim (subjectCode w) = []"
    by blast
  have "trim [] = []" by (simp add: trim_def)
  with guard show ?thesis
    by (auto simp add: handleUpload_def showNotification_def split: option.splits)
qed

theorem submit_validation_witness:
  "(\<exists>ds. expectedTotal (setExpectedTotal ''-12'' staged) = CHR ''-'' # ds \<and> ds \<noteq> []
          \<and> list_all isDigit ds \<and> 0 < digits_value 10 ds)
   \<and> requests (handleUpload (setExpectedTotal ''-12'' staged)) = []
   \<and> type (notification (handleUpload (setExpectedTotal ''-12'' staged))) = ''error''
   \<and> timers (handleUpload (setExpectedTotal ''-12'' staged)) = [4000]"
proof -
  let ?w = "setExpectedTotal ''-12'' staged"
  have digits: "list_all isDigit ''12''" "0 < digits_value 10 ''12''"
    by code_simp+
  then have negative: "\<exists>ds. expectedTotal ?w = CHR ''-'' # ds \<and> ds \<noteq> []
          \<and> list_all isDigit ds \<and> 0 < digits_value 10 ds"
    by (simp add: setExpectedTotal_def)
  then have hyp: "selectedFile ?w = None
           \<or> expectedTotal ?w = [] \<or> isNaN (Number (expectedTotal ?w))
           \<or> less_than_zero (Number (expectedTotal ?w))
           \<or> expectedTotal ?w \<in> {[], ''-1'', ''abc''}
           \<or> (\<exists>ds. expectedTotal ?w = CHR ''-'' # ds \<and> ds \<noteq> [] \<and> list_all isDigit ds
                  \<and> 0 < digits_value 10 ds)
           \<or> (trim (expectedTotal ?w) \<noteq> [] \<and> \<not> isDigit (hd (trim (expectedTotal ?w)))
               \<and> hd (trim (expectedTotal ?w)) \<notin> {CHR ''.'', CHR ''+'', CHR ''-'', CHR ''I''})
           \<or> trim (subjectCode ?w) = []"
    by blast
  have before: "requests ?w = []" "timers ?w = []" "clock ?w = 0"
    by (simp_all add: setExpectedTotal_def staged_eq initial_def)
  from submit_validation [OF hyp] before negative show ?thesis
    by simp
qed

text \<open>
  Claim C8. When the validations pass, \<open>handleUpload\<close> sets the busy flag and calls
  \<open>fetch\<close> on the state that has it set; and whatever the awaits deliver, and whatever
  the state is by then, the flag is off once the handler has run to its end.
\<close>

theorem busy_flag_cleared:
  assumes "selectedFile w = Some f"
      and "expectedTotal w \<noteq> []"
      and "\<not> isNaN (Number (expectedTotal w))"
      and "\<not> less_than_zero (Number (expectedTotal w))"
      and "trim (subjectCode w) \<noteq> []"
  shows "handleUpload w
           = fetch (POST_upload f (expectedTotal w) (trim (subjectCode w)))
               (w\<lparr>isUploading := True\<rparr>)
         \<and> isUploading (handleUpload w)
         \<and> requests (handleUpload w)
             = requests w @ [POST_upload f (expectedTotal w) (trim (subjectCode w))]
         \<and> \<not> isUploading (handleUpload_settled outcome (handleUpload w))
         \<and> \<not> isUploading (handleUpload_settled outcome w')"
proof -
  have "subjectCode w \<noteq> []"
    using assms(5) by (auto simp add: trim_def)
  with assms have start: "handleUpload w
           = fetch (POST_upload f (expectedTotal w) (trim (subjectCode w)))
               (w\<lparr>isUploading := True\<rparr>)"
    by (simp add: handleUpload_def)
  have fin: "\<not> isUploading (handleUpload_settled outcome v)" for v
    by (simp add: handleUpload_settled_def)
  from start fin show ?thesis
    by (simp add: fetch_def)
qed

theorem busy_flag_cleared_witness:
  "selectedFile staged = Some marks_file
   \<and> expectedTotal staged \<noteq> []
   \<and> \<not> isNaN (Number (expectedTotal staged))
   \<and> \<not> less_than_zero (Number (expectedTotal staged))
   \<and> trim (subjectCode staged) \<noteq> []
   \<and> isUploading (handleUpload staged)
   \<and> requests (handleUpload staged) = [POST_upload marks_file ''45'' ''CS101'']
   \<and> \<not> isUploading (handleUpload_settled (FetchRejected ''Failed to fetch'')
                        (handleUpload staged))"
proof -
  have hyps: "selectedFile staged = Some marks_file" "expectedTotal staged \<noteq> []"
    "\<not> isNaN (Number (expectedTotal staged))"
    "\<not> less_than_zero (Number (expectedTotal staged))"
    "trim (subjectCode staged) \<noteq> []"
    using staged_valid by (simp_all add: staged_eq initial_def)
  have before: "requests staged = []" "expectedTotal staged = ''45''"
    "trim (subjectCode staged) = ''CS101''"
    using staged_valid by (simp_all add: staged_eq initial_def)
  from busy_flag_cleared [OF hyps, of "FetchRejected ''Failed to fetch''" staged] hyps before
  show ?thesis
    by (simp add: fetch_def handleUpload_settled_def upload_try_def showNotification_def)
qed

text \<open>
  Claim C6. A response that is not ok and whose body has a \<open>found_subjects\<close> list
  ends in an error notification whose message is the server's error text (when there
  is one) followed by \<open>Found subjects:\<close> and the list joined with commas; no result
  state is committed. For status 409 with error \<open>mismatch\<close> and subjects CS101, CS102
  the message is \<open>mismatch Found subjects: CS101, CS102\<close>.
\<close>

theorem upload_rejected_with_subjects:
  "type (notification (handleUpload_settled
            (NotOk status \<lparr>error = err, found_subjects = Some subjects\<rparr>) w)) = ''error''
   \<and> message (notification (handleUpload_settled
            (NotOk status \<lparr>error = err, found_subjects = Some subjects\<rparr>) w))
       = (case err of Some e \<Rightarrow> if e \<noteq> [] then e @ '' '' else [] | None \<Rightarrow> [])
         @ ''Found subjects: '' @ join subjects '', ''
   \<and> (\<forall>e. err = Some e \<longrightarrow>
         sublist e (message (notification (handleUpload_settled
            (NotOk status \<lparr>error = err, found_subjects = Some subjects\<rparr>) w))))
   \<and> sublist (join subjects '', '') (message (notification (handleUpload_settled
            (NotOk status \<lparr>error = err, found_subjects = Some subjects\<rparr>) w)))
   \<and> handleUpload_settled (NotOk status \<lparr>error = err, found_subjects = Some subjects\<rparr>) w
       = (showNotification
            ((case err of Some e \<Rightarrow> if e \<noteq> [] then e @ '' '' else [] | None \<Rightarrow> [])
              @ ''Found subjects: '' @ join subjects '', '') ''error'' w)\<lparr>isUploading := False\<rparr>
   \<and> downloadInfo (handleUpload_settled
            (NotOk status \<lparr>error = err, found_subjects = Some subjects\<rparr>) w) = downloadInfo w
   \<and> resultStats (handleUpload_settled
            (NotOk status \<lparr>error = err, found_subjects = Some subjects\<rparr>) w) = resultStats w
   \<and> resultDetails (handleUpload_settled
            (NotOk status \<lparr>error = err, found_subjects = Some subjects\<rparr>) w) = resultDetails w
   \<and> chartData (handleUpload_settled
            (NotOk status \<lparr>error = err, found_subjects = Some subjects\<rparr>) w) = chartData w
   \<and> gradeRanges (handleUpload_settled
            (NotOk status \<lparr>error = err, found_subjects = Some subjects\<rparr>) w) = gradeRanges w
   \<and> requests (handleUpload_settled
            (NotOk status \<lparr>error = err, found_subjects = Some subjects\<rparr>) w) = requests w
   \<and> message (notification (handleUpload_settled
            (NotOk 409 \<lparr>error = Some ''mismatch'',
                        found_subjects = Some [''CS101'', ''CS102'']\<rparr>) w))
       = ''mismatch Found subjects: CS101, CS102''"
proof -
  let ?pre = "case err of Some e \<Rightarrow> if e \<noteq> [] then e @ '' '' else [] | None \<Rightarrow> []"
  let ?msg = "?pre @ ''Found subjects: '' @ join subjects '', ''"
  have settled: "handleUpload_settled
            (NotOk st \<lparr>error = er, found_subjects = Some sb\<rparr>) w
       = (showNotification
            ((case er of Some e \<Rightarrow> if e \<noteq> [] then e @ '' '' else [] | None \<Rightarrow> [])
              @ ''Found subjects: '' @ join sb '', '') ''error'' w)\<lparr>isUploading := False\<rparr>"
    for st er sb
    by (simp add: handleUpload_settled_def upload_try_def)
  have err_in: "sublist e ?msg" if "err = Some e" for e
  proof (cases "e = []")
    case True
    then show ?thesis by simp
  next
    case False
    with that have "?msg = [] @ e @ ('' '' @ ''Found subjects: '' @ join subjects '', '')"
      by simp
    then show ?thesis unfolding sublist_def by blast
  qed
  have subj_in: "sublist (join subjects '', '') ?msg"
  proof -
    have "?msg = (?pre @ ''Found subjects: '') @ join subjects '', '' @ []" by simp
    then show ?thesis unfolding sublist_def by blast
  qed
  show ?thesis
    unfolding settled using err_in subj_in
    by (simp add: showNotification_def)
qed

theorem upload_rejected_with_subjects_witness:
  "sublist ''mismatch'' (message (notification (handleUpload_settled
      (NotOk 409 \<lparr>error = Some ''mismatch'', found_subjects = Some [''CS101'', ''CS102'']\<rparr>)
      (handleUpload staged))))
   \<and> sublist ''CS101, CS102'' (message (notification (handleUpload_settled
      (NotOk 409 \<lparr>error = Some ''mismatch'', found_subjects = Some [''CS101'', ''CS102'']\<rparr>)
      (handleUpload staged))))
   \<and> downloadInfo (handleUpload_settled
      (NotOk 409 \<lparr>error = Some ''mismatch'', found_subjects = Some [''CS101'', ''CS102'']\<rparr>)
      (handleUpload staged)) = None"
proof -
  have before: "downloadInfo (handleUpload staged) = None"
    unfolding handleUpload_staged by (simp add: staged_eq initial_def)
  from upload_rejected_with_subjects
         [of 409 "Some ''mismatch''" "[''CS101'', ''CS102'']" "handleUpload staged"] before
  show ?thesis by auto
qed

subsection \<open>Grade ranges\<close>

text \<open>
  Claim C7. When the grade-ranges request fails (the fetch or the parsing of the body
  rejects, the body is null, or it has no \<open>grade_ranges\<close>), \<open>gradeRanges\<close> becomes
  null and nothing else changes: no notification, no timer, and the summary, details,
  download info and chart data committed by the upload stay as they were.
\<close>

theorem grade_ranges_failure_isolated:
  assumes "\<forall>ranges. outcome \<noteq> RangesBody (Some ranges)"
  shows "grade_ranges_settled outcome w = w\<lparr>gradeRanges := None\<rparr>
         \<and> gradeRanges (grade_ranges_settled outcome w) = None
         \<and> resultStats (grade_ranges_settled outcome w) = resultStats w
         \<and> resultDetails (grade_ranges_settled outcome w) = resultDetails w
         \<and> downloadInfo (grade_ranges_settled outcome w) = downloadInfo w
         \<and> chartData (grade_ranges_settled outcome w) = chartData w
         \<and> notification (grade_ranges_settled outcome w) = notification w
         \<and> timers (grade_ranges_settled outcome w) = timers w
         \<and> isUploading (grade_ranges_settled outcome w) = isUploading w
         \<and> resultStats (grade_ranges_settled outcome (handleUpload_settled (Ok result) w0))
             = Some (result_summary result)
         \<and> resultDetails (grade_ranges_settled outcome (handleUpload_settled (Ok result) w0))
             = details result
         \<and> downloadInfo (grade_ranges_settled outcome (handleUpload_settled (Ok result) w0))
             = Some \<lparr>fileId = file_id result, filename = result_filename result\<rparr>
         \<and> chartData (grade_ranges_settled outcome (handleUpload_settled (Ok result) w0))
             = formattedChartData (details result)
         \<and> notification (grade_ranges_settled outcome (handleUpload_settled (Ok result) w0))
             = \<lparr>message = ''File processed successfully!'', type = ''success''\<rparr>
         \<and> gradeRanges (grade_ranges_settled outcome (handleUpload_settled (Ok result) w0))
             = None"
proof -
  have fail: "grade_ranges_settled outcome v = v\<lparr>gradeRanges := None\<rparr>" for v
    using assms
    by (cases outcome) (simp_all add: grade_ranges_settled_def split: option.splits)
  have ok: "handleUpload_settled (Ok result) w0
      = w0\<lparr>downloadInfo := Some \<lparr>fileId = file_id result, filename = result_filename result\<rparr>,
            resultStats := Some (result_summary result),
            resultDetails := details result,
            notification := \<lparr>message = ''File processed successfully!'', type = ''success''\<rparr>,
            timers := timers w0 @ [clock w0 + 4000],
            chartData := formattedChartData (details result),
            requests := requests w0 @ [GET_grade_ranges (file_id result)],
            isUploading := False\<rparr>"
    by (simp add: handleUpload_settled_def upload_try_def showNotification_def fetch_def)
  show ?thesis
    unfolding fail ok by simp
qed

theorem grade_ranges_failure_isolated_witness:
  "(\<forall>ranges. RangesFetchRejected \<noteq> RangesBody (Some ranges))
   \<and> gradeRanges (grade_ranges_settled RangesFetchRejected ready) = None
   \<and> gradeRanges ready = Some [(''O'', ''91-100''), (''B'', ''40-60'')]
   \<and> resultDetails (grade_ranges_settled RangesFetchRejected ready) = details sample_result
   \<and> resultStats (grade_ranges_settled RangesFetchRejected ready)
       = Some (result_summary sample_result)
   \<and> notification (grade_ranges_settled RangesFetchRejected ready)
       = \<lparr>message = ''File processed successfully!'', type = ''success''\<rparr>"
proof -
  have hyp: "\<forall>ranges. RangesFetchRejected \<noteq> RangesBody (Some ranges)"
    by simp
  have before: "gradeRanges ready = Some [(''O'', ''91-100''), (''B'', ''40-60'')]"
    "resultDetails ready = details sample_result"
    "resultStats ready = Some (result_summary sample_result)"
    "notification ready = \<lparr>message = ''File processed successfully!'', type = ''success''\<rparr>"
    by (simp_all add: ready_eq uploaded_eq)
  from grade_ranges_failure_isolated [OF hyp, of ready] hyp before
  show ?thesis by simp
qed

subsection \<open>File intake\<close>

text \<open>
  Claim C4. When the name of the first candidate file, in lower case, ends neither in
  \<open>.xlsx\<close> nor in \<open>.xls\<close>, \<open>handleFileSelect\<close> shows exactly one error notification
  and changes nothing else: staged file, parameters, upload result, grade ranges and
  chart data are as before.
\<close>

theorem file_select_rejects:
  assumes "\<not> endsWith (toLowerCase (name f)) ''.xlsx''"
      and "\<not> endsWith (toLowerCase (name f)) ''.xls''"
  shows "handleFileSelect (Some (f # fs)) w
           = showNotification ''Please select a valid Excel file (.xlsx or .xls)'' ''error'' w
         \<and> handleFileSelect (Some (f # fs)) w
           = w\<lparr>notification := \<lparr>message = ''Please select a valid Excel file (.xlsx or .xls)'',
                                  type = ''error''\<rparr>,
                timers := timers w @ [clock w + 4000]\<rparr>
         \<and> selectedFile (handleFileSelect (Some (f # fs)) w) = selectedFile w
         \<and> expectedTotal (handleFileSelect (Some (f # fs)) w) = expectedTotal w
         \<and> subjectCode (handleFileSelect (Some (f # fs)) w) = subjectCode w
         \<and> downloadInfo (handleFileSelect (Some (f # fs)) w) = downloadInfo w
         \<and> resultStats (handleFileSelect (Some (f # fs)) w) = resultStats w
         \<and> resultDetails (handleFileSelect (Some (f # fs)) w) = resultDetails w
         \<and> gradeRanges (handleFileSelect (Some (f # fs)) w) = gradeRanges w
         \<and> chartData (handleFileSelect (Some (f # fs)) w) = chartData w
         \<and> isUploading (handleFileSelect (Some (f # fs)) w) = isUploading w
         \<and> requests (handleFileSelect (Some (f # fs)) w) = requests w"
  using assms by (simp add: handleFileSelect_def showNotification_def)

theorem file_select_rejects_witness:
  "\<not> endsWith (toLowerCase (name \<lparr>name = ''notes.xlsx.TXT'', content = []\<rparr>)) ''.xlsx''
   \<and> \<not> endsWith (toLowerCase (name \<lparr>name = ''notes.xlsx.TXT'', content = []\<rparr>)) ''.xls''
   \<and> selectedFile (handleFileSelect (Some [\<lparr>name = ''notes.xlsx.TXT'', content = []\<rparr>]) ready)
       = Some marks_file
   \<and> notification (handleFileSelect (Some [\<lparr>name = ''notes.xlsx.TXT'', content = []\<rparr>]) ready)
       = \<lparr>message = ''Please select a valid Excel file (.xlsx or .xls)'', type = ''error''\<rparr>
   \<and> timers (handleFileSelect (Some [\<lparr>name = ''notes.xlsx.TXT'', content = []\<rparr>]) ready)
       = [5200, 5500]"
proof -
  let ?f = "\<lparr>name = ''notes.xlsx.TXT'', content = []\<rparr>"
  have low: "toLowerCase ''notes.xlsx.TXT'' = ''notes.xlsx.txt''"
    by code_simp
  have h1: "\<not> endsWith (toLowerCase (name ?f)) ''.xlsx''"
    by (simp add: low endsWith_def)
  have h2: "\<not> endsWith (toLowerCase (name ?f)) ''.xls''"
    by (simp add: low endsWith_def)
  have before: "selectedFile ready = Some marks_file" "timers ready = [5200]"
    "clock ready = 1500"
    by (simp_all add: ready_eq uploaded_eq staged_eq initial_def)
  from file_select_rejects [OF h1 h2, of "[]" ready] h1 h2 before
  show ?thesis by (simp add: showNotification_def)
qed

text \<open>
  Claim C5. Selecting a file with an accepted extension, also after a successful
  upload, clears download info, summary, details, grade ranges, chart data, both
  parameters and the busy flag, and stages the new file.
\<close>

theorem file_select_resets:
  assumes "endsWith (toLowerCase (name f)) ''.xlsx'' \<or> endsWith (toLowerCase (name f)) ''.xls''"
  shows "handleFileSelect (Some (f # fs)) w = (resetState w)\<lparr>selectedFile := Some f\<rparr>
         \<and> downloadInfo (handleFileSelect (Some (f # fs)) w) = None
         \<and> resultStats (handleFileSelect (Some (f # fs)) w) = None
         \<and> resultDetails (handleFileSelect (Some (f # fs)) w) = []
         \<and> gradeRanges (handleFileSelect (Some (f # fs)) w) = None
         \<and> chartData (handleFileSelect (Some (f # fs)) w) = []
         \<and> expectedTotal (handleFileSelect (Some (f # fs)) w) = []
         \<and> subjectCode (handleFileSelect (Some (f # fs)) w) = []
         \<and> \<not> isUploading (handleFileSelect (Some (f # fs)) w)
         \<and> selectedFile (handleFileSelect (Some (f # fs)) w) = Some f"
  using assms by (auto simp add: handleFileSelect_def resetState_def)

theorem file_select_resets_witness:
  "(endsWith (toLowerCase (name \<lparr>name = ''Second.XLS'', content = []\<rparr>)) ''.xlsx''
      \<or> endsWith (toLowerCase (name \<lparr>name = ''Second.XLS'', content = []\<rparr>)) ''.xls'')
   \<and> downloadInfo ready = Some \<lparr>fileId = ''f1'', filename = ''graded.xlsx''\<rparr>
   \<and> downloadInfo (handleFileSelect (Some [\<lparr>name = ''Second.XLS'', content = []\<rparr>]) ready) = None
   \<and> resultDetails (handleFileSelect (Some [\<lparr>name = ''Second.XLS'', content = []\<rparr>]) ready) = []
   \<and> gradeRanges (handleFileSelect (Some [\<lparr>name = ''Second.XLS'', content = []\<rparr>]) ready) = None
   \<and> chartData (handleFileSelect (Some [\<lparr>name = ''Second.XLS'', content = []\<rparr>]) ready) = []
   \<and> selectedFile (handleFileSelect (Some [\<lparr>name = ''Second.XLS'', content = []\<rparr>]) ready)
       = Some \<lparr>name = ''Second.XLS'', content = []\<rparr>"
proof -
  let ?f = "\<lparr>name = ''Second.XLS'', content = []\<rparr>"
  have low: "toLowerCase ''Second.XLS'' = ''second.xls''"
    by code_simp
  have hyp: "endsWith (toLowerCase (name ?f)) ''.xlsx'' \<or> endsWith (toLowerCase (name ?f)) ''.xls''"
    by (simp add: low endsWith_def)
  have before: "downloadInfo ready = Some \<lparr>fileId = ''f1'', filename = ''graded.xlsx''\<rparr>"
    by (simp add: ready_eq uploaded_eq)
  from file_select_resets [OF hyp, of "[]" ready] hyp before
  show ?thesis by (simp add: resetState_def)
qed

text \<open>
  Claim C10. With a null or an empty file list \<open>handleFileSelect\<close> returns the state
  as it is: no state change, no notification, no timer. With several files only the
  first one counts.
\<close>

theorem file_select_empty:
  "handleFileSelect None w = w
   \<and> handleFileSelect (Some []) w = w
   \<and> handleFileSelect (Some (f # fs)) w = handleFileSelect (Some [f]) w"
  by (simp add: handleFileSelect_def)

subsection \<open>Download\<close>

text \<open>
  Claim C9. Without download info, \<open>handleDownload\<close> shows the error notification
  \<open>No file available for download.\<close> and issues no request.
\<close>

theorem download_without_result:
  assumes "downloadInfo w = None"
  shows "handleDownload w = showNotification ''No file available for download.'' ''error'' w
         \<and> requests (handleDownload w) = requests w
         \<and> notification (handleDownload w)
             = \<lparr>message = ''No file available for download.'', type = ''error''\<rparr>
         \<and> timers (handleDownload w) = timers w @ [clock w + 4000]"
  using assms by (simp add: handleDownload_def showNotification_def)

theorem download_without_result_witness:
  "downloadInfo staged = None
   \<and> requests (handleDownload staged) = []
   \<and> notification (handleDownload staged)
       = \<lparr>message = ''No file available for download.'', type = ''error''\<rparr>"
proof -
  have hyp: "downloadInfo staged = None"
    by (simp add: staged_eq initial_def)
  have before: "requests staged = []"
    by (simp add: staged_eq initial_def)
  from download_without_result [OF hyp] hyp before show ?thesis
    by (simp add: showNotification_def)
qed

subsection \<open>Notification timers\<close>

lemma fold_timeout_callback:
  "fold (\<lambda>_. timeout_callback) xs w
     = (if xs = [] then w else w\<lparr>notification := \<lparr>message = [], type = []\<rparr>\<rparr>)"
  by (induction xs arbitrary: w) (simp_all add: timeout_callback_def)

text \<open>
  Claim C3, as stated, fails. A first notification is shown at time 0 and a second one
  at time 2000. At time 4000 the first timer fires: the second message is gone, although
  its own timer, due at 6000, is still pending.
\<close>

theorem earlier_timer_clears_newer:
  "notification (advance 2000 (showNotification ''second'' ''success''
       (advance 2000 (showNotification ''first'' ''error'' initial))))
     \<noteq> \<lparr>message = ''second'', type = ''success''\<rparr>
   \<and> notification (advance 1999 (showNotification ''second'' ''success''
       (advance 2000 (showNotification ''first'' ''error'' initial))))
     = \<lparr>message = ''second'', type = ''success''\<rparr>
   \<and> timers (advance 2000 (showNotification ''second'' ''success''
       (advance 2000 (showNotification ''first'' ''error'' initial)))) = [6000]
   \<and> clock (advance 2000 (showNotification ''second'' ''success''
       (advance 2000 (showNotification ''first'' ''error'' initial)))) = 4000"
  by (simp add: advance_def showNotification_def initial_def timeout_callback_def)

text \<open>
  Claim C3, amended. Every \<open>showNotification\<close> replaces the displayed notification and
  schedules its own timer 4000 ms later; no timer is ever cancelled, and a timer that
  fires clears whatever is displayed. So when a second notification replaces the first
  \<open>d\<close> ms after it, with \<open>0 < d < 4000\<close>, both timers are pending, and the first timer, firing 4000 ms
  after the first notification, clears the second message.
\<close>

theorem notification_timers:
  assumes "0 < d" and "d < 4000"
  shows "notification (showNotification m2 k2 (advance d (showNotification m1 k1 w)))
           = \<lparr>message = m2, type = k2\<rparr>
         \<and> clock w + 4000 \<in> set (timers (showNotification m2 k2
                                       (advance d (showNotification m1 k1 w))))
         \<and> clock w + d + 4000 \<in> set (timers (showNotification m2 k2
                                       (advance d (showNotification m1 k1 w))))
         \<and> notification (advance (4000 - d) (showNotification m2 k2
                            (advance d (showNotification m1 k1 w))))
             = \<lparr>message = [], type = []\<rparr>
         \<and> clock (advance (4000 - d) (showNotification m2 k2
                            (advance d (showNotification m1 k1 w)))) = clock w + 4000
         \<and> clock w + d + 4000 \<in> set (timers (advance (4000 - d) (showNotification m2 k2
                                       (advance d (showNotification m1 k1 w)))))"
  using assms
  by (simp add: advance_def showNotification_def fold_timeout_callback Let_def)

theorem notification_timers_witness:
  "(0 :: nat) < 1000 \<and> (1000 :: nat) < 4000
   \<and> notification (showNotification ''b'' ''success''
        (advance 1000 (showNotification ''a'' ''error'' staged)))
       = \<lparr>message = ''b'', type = ''success''\<rparr>
   \<and> notification (advance (4000 - 1000) (showNotification ''b'' ''success''
        (advance 1000 (showNotification ''a'' ''error'' staged))))
       = \<lparr>message = [], type = []\<rparr>
   \<and> clock (advance (4000 - 1000) (showNotification ''b'' ''success''
        (advance 1000 (showNotification ''a'' ''error'' staged)))) = 4000"
proof -
  have hyp: "(0 :: nat) < 1000" "(1000 :: nat) < 4000" by simp_all
  have before: "clock staged = 0"
    by (simp add: staged_eq initial_def)
  from notification_timers [OF hyp, of "''b''" "''success''" "''a''" "''error''" staged] before
  show ?thesis by simp
qed

end
